theory Spec2Isabelle
  imports Main "HOL-Library.Word"
begin

section \<open>JavaScript values used by the component\<close>

text \<open>
  A JavaScript string is a sequence of UTF-16 code units. String literals of the source
  are ASCII and are written with \<open>js\<close>.
\<close>

type_synonym jsstring = "16 word list"

definition js :: "string \<Rightarrow> jsstring" where
  "js s = map of_char s"

text \<open>
  The values the component tests and prints: an optional field of the project (a string,
  a boolean or \<open>undefined\<close>) and the result of a property read on the object literal
  \<open>categoryColors\<close>, which is a string of its own or what the prototype chain
  (\<open>Object.prototype\<close>) holds under that name.
\<close>

datatype jsvalue =
    Undefined
  | Bool bool
  | Str jsstring
  | NativeFunction jsstring
  | ObjectPrototype

text \<open>ToBoolean, as the operators \<open>&&\<close> and \<open>||\<close> apply it.\<close>

fun truthy :: "jsvalue \<Rightarrow> bool" where
  "truthy Undefined = False"
| "truthy (Bool b) = b"
| "truthy (Str s) = (s \<noteq> [])"
| "truthy (NativeFunction n) = True"
| "truthy ObjectPrototype = True"

text \<open>
  ToString, as a template literal applies it. A built-in function prints as
  \<open>function NAME() { [native code] }\<close> (the rendering of V8 and JavaScriptCore; the
  standard fixes the shape, not the white space).
\<close>

fun toStringJS :: "jsvalue \<Rightarrow> jsstring" where
  "toStringJS Undefined = js ''undefined''"
| "toStringJS (Bool b) = (if b then js ''true'' else js ''false'')"
| "toStringJS (Str s) = s"
| "toStringJS (NativeFunction n) = js ''function '' @ n @ js ''() { [native code] }''"
| "toStringJS ObjectPrototype = js ''[object Object]''"

text \<open>
  The properties every object literal inherits from \<open>Object.prototype\<close>. All are built-in
  functions named after their key, except \<open>constructor\<close> (the function \<open>Object\<close>) and the
  accessor \<open>__proto__\<close>, which yields the receiver's prototype: for an object literal,
  \<open>Object.prototype\<close> itself.
\<close>

definition inheritedMethods :: "string list" where
  "inheritedMethods =
     [''hasOwnProperty'', ''isPrototypeOf'', ''propertyIsEnumerable'', ''toLocaleString'',
      ''toString'', ''valueOf'', ''__defineGetter__'', ''__defineSetter__'',
      ''__lookupGetter__'', ''__lookupSetter__'']"

definition inheritedKeys :: "jsstring list" where
  "inheritedKeys = map js (''__proto__'' # ''constructor'' # inheritedMethods)"

definition objectPrototype :: "jsstring \<Rightarrow> jsvalue" where
  "objectPrototype k =
     (if k = js ''__proto__'' then ObjectPrototype
      else if k = js ''constructor'' then NativeFunction (js ''Object'')
      else if k \<in> set (map js inheritedMethods) then NativeFunction k
      else Undefined)"

text \<open>\<open>obj[k]\<close> on an object literal with the own properties \<open>own\<close>.\<close>

definition getProperty :: "(jsstring \<times> jsstring) list \<Rightarrow> jsstring \<Rightarrow> jsvalue" where
  "getProperty own k =
     (case map_of own k of Some v \<Rightarrow> Str v | None \<Rightarrow> objectPrototype k)"

subsection \<open>encodeURIComponent\<close>

text \<open>
  The built-in \<open>encodeURIComponent\<close> (ECMA-262, Encode with the unreserved set of
  letters, digits and \<open>- _ . ! ~ * ' ( )\<close>): a code unit of the set is copied, any other code
  point is written as the percent-escaped bytes of its UTF-8 form, and a surrogate that
  has no partner throws URIError.
\<close>

datatype error = URIError

definition uriUnescaped :: "16 word \<Rightarrow> bool" where
  "uriUnescaped c =
     (let n = unat c in
        (65 \<le> n \<and> n \<le> 90) \<or> (97 \<le> n \<and> n \<le> 122) \<or> (48 \<le> n \<and> n \<le> 57) \<or>
        n \<in> set [45, 95, 46, 33, 126, 42, 39, 40, 41])"

definition isLeadSurrogate :: "16 word \<Rightarrow> bool" where
  "isLeadSurrogate c = (0xD800 \<le> unat c \<and> unat c \<le> 0xDBFF)"

definition isTrailSurrogate :: "16 word \<Rightarrow> bool" where
  "isTrailSurrogate c = (0xDC00 \<le> unat c \<and> unat c \<le> 0xDFFF)"

definition surrogatePair :: "16 word \<Rightarrow> 16 word \<Rightarrow> nat" where
  "surrogatePair c d = (unat c - 0xD800) * 0x400 + (unat d - 0xDC00) + 0x10000"

definition utf8 :: "nat \<Rightarrow> nat list" where
  "utf8 cp =
     (if cp < 0x80 then [cp]
      else if cp < 0x800 then [0xC0 + cp div 64, 0x80 + cp mod 64]
      else if cp < 0x10000 then
        [0xE0 + cp div 4096, 0x80 + (cp div 64) mod 64, 0x80 + cp mod 64]
      else
        [0xF0 + cp div 262144, 0x80 + (cp div 4096) mod 64, 0x80 + (cp div 64) mod 64,
         0x80 + cp mod 64])"

definition hexDigit :: "nat \<Rightarrow> 16 word" where
  "hexDigit d = (if d < 10 then of_nat (48 + d) else of_nat (55 + d))"

definition percent :: "nat list \<Rightarrow> jsstring" where
  "percent bs = concat (map (\<lambda>b. [0x25, hexDigit (b div 16), hexDigit (b mod 16)]) bs)"

definition prepend :: "jsstring \<Rightarrow> error + jsstring \<Rightarrow> error + jsstring" where
  "prepend r res = (case res of Inl e \<Rightarrow> Inl e | Inr s \<Rightarrow> Inr (r @ s))"

fun Encode :: "jsstring \<Rightarrow> error + jsstring" where
  "Encode [] = Inr []"
| "Encode (c # cs) =
     (if uriUnescaped c then prepend [c] (Encode cs)
      else if \<not> isLeadSurrogate c \<and> \<not> isTrailSurrogate c then
        prepend (percent (utf8 (unat c))) (Encode cs)
      else if isTrailSurrogate c then Inl URIError
      else (case cs of
              [] \<Rightarrow> Inl URIError
            | d # ds \<Rightarrow>
                if isTrailSurrogate d then
                  prepend (percent (utf8 (surrogatePair c d))) (Encode ds)
                else Inl URIError))"

definition encodeURIComponent :: "jsstring \<Rightarrow> error + jsstring" where
  "encodeURIComponent s = Encode s"

section \<open>The component\<close>

text \<open>Modelled from the spec: the type \<open>Project\<close> of \<open>src/types\<close>, which the component imports
  and which is not among the sources. The spec's data model gives a title, a description,
  a category, an ordered sequence of technology tags, an optional image URL, an optional
  github URL, an optional liveDemo URL and the flag featured (absent in the spec's own
  example, hence optional here). The category is kept as the string it is at run time.
\<close>

record Project =
  title :: jsstring
  description :: jsstring
  category :: jsstring
  technologies :: "jsstring list"
  imageUrl :: "jsstring option"
  github :: "jsstring option"
  liveDemo :: "jsstring option"
  featured :: "bool option"

definition optionalString :: "jsstring option \<Rightarrow> jsvalue" where
  "optionalString f = (case f of None \<Rightarrow> Undefined | Some s \<Rightarrow> Str s)"

definition optionalBool :: "bool option \<Rightarrow> jsvalue" where
  "optionalBool f = (case f of None \<Rightarrow> Undefined | Some b \<Rightarrow> Bool b)"

text \<open>The two \<open>useState\<close> flags, with their initial values.\<close>

record RenderState =
  imageError :: bool
  imageLoading :: bool

definition initialState :: RenderState where
  "initialState = \<lparr>imageError = False, imageLoading = True\<rparr>"

subsection \<open>getImageSource\<close>

definition categoryColors :: "(jsstring \<times> jsstring) list" where
  "categoryColors =
     [(js ''blockchain'', js ''1e293b/0ea5e9''),
      (js ''frontend'', js ''1e1b4b/a855f7''),
      (js ''fullstack'', js ''422006/d97706'')]"

text \<open>
  The fallback of \<open>getImageSource\<close>: the lookup, the default of \<open>||\<close> and the template
  literal, whose call of \<open>encodeURIComponent\<close> can throw.
\<close>

definition placeholderSource :: "Project \<Rightarrow> error + jsstring" where
  "placeholderSource project =
     (let looked = getProperty categoryColors (category project);
          color = (if truthy looked then looked else Str (js ''1e293b/64748b''))
      in case encodeURIComponent (title project) of
           Inl e \<Rightarrow> Inl e
         | Inr text \<Rightarrow>
             Inr (js ''https://via.placeholder.com/800x600/'' @ toStringJS color @
                  js ''?text='' @ text))"

definition getImageSource :: "Project \<Rightarrow> RenderState \<Rightarrow> error + jsstring" where
  "getImageSource project st =
     (case imageUrl project of
        Some u \<Rightarrow>
          if truthy (Str u) \<and> \<not> imageError st then Inr u else placeholderSource project
      | None \<Rightarrow> placeholderSource project)"

subsection \<open>The image callbacks\<close>

definition handleImageLoad :: "RenderState \<Rightarrow> RenderState" where
  "handleImageLoad st = st\<lparr>imageLoading := False\<rparr>"

definition handleImageError :: "RenderState \<Rightarrow> RenderState" where
  "handleImageError st = st\<lparr>imageError := True, imageLoading := False\<rparr>"

text \<open>The events of the image element, wired by \<open>onLoad\<close> and \<open>onError\<close>.\<close>

datatype event = ImageLoad | ImageError

fun dispatch :: "RenderState \<Rightarrow> event \<Rightarrow> RenderState" where
  "dispatch st ImageLoad = handleImageLoad st"
| "dispatch st ImageError = handleImageError st"

text \<open>The states the component goes through under a sequence of events, the first included.\<close>

fun states :: "RenderState \<Rightarrow> event list \<Rightarrow> RenderState list" where
  "states st [] = [st]"
| "states st (e # es) = st # states (dispatch st e) es"

subsection \<open>The rendered card\<close>

text \<open>
  The rendered tree, without its fixed styling and animation attributes: every element
  whose presence or content depends on the project or on the state.
\<close>

record Img =
  src :: jsstring
  alt :: jsstring
  className :: jsstring

record Anchor =
  href :: jsstring
  target :: jsstring
  rel :: jsstring
  label :: jsstring

record Card =
  spinner :: "jsstring option"
  picture :: Img
  liveDemoBadge :: "jsstring option"
  featuredBadge :: "jsstring option"
  categoryBadge :: jsstring
  titleText :: jsstring
  descriptionText :: jsstring
  tags :: "jsstring list"
  codeLink :: "Anchor option"
  demoLink :: "Anchor option"

text \<open>\<open>{cond && <element/>}\<close>: the element when the condition is truthy, nothing otherwise.\<close>

definition whenTruthy :: "jsvalue \<Rightarrow> 'a \<Rightarrow> 'a option" where
  "whenTruthy cond element = (if truthy cond then Some element else None)"

definition ProjectCard :: "Project \<Rightarrow> int \<Rightarrow> RenderState \<Rightarrow> error + Card" where
  "ProjectCard project index st =
     (case getImageSource project st of
        Inl e \<Rightarrow> Inl e
      | Inr imageSrc \<Rightarrow>
          Inr \<lparr>spinner = whenTruthy (Bool (imageLoading st)) (js ''Loading preview...''),
               picture =
                 \<lparr>src = imageSrc,
                  alt = js ''Preview of '' @ title project,
                  className =
                    js ''h-full w-full object-cover transition-all duration-500 '' @
                    (if imageLoading st then js ''opacity-0''
                     else js ''opacity-100 group-hover:opacity-90'')\<rparr>,
               liveDemoBadge =
                 whenTruthy (optionalString (liveDemo project)) (js ''LIVE DEMO''),
               featuredBadge =
                 whenTruthy (optionalBool (featured project)) (0x2B50 # js '' Featured''),
               categoryBadge = category project,
               titleText = title project,
               descriptionText = description project,
               tags = technologies project,
               codeLink =
                 (case github project of
                    None \<Rightarrow> None
                  | Some u \<Rightarrow>
                      whenTruthy (Str u)
                        \<lparr>href = u, target = js ''_blank'', rel = js ''noopener noreferrer'',
                         label = js ''Code''\<rparr>),
               demoLink =
                 (case liveDemo project of
                    None \<Rightarrow> None
                  | Some u \<Rightarrow>
                      whenTruthy (Str u)
                        \<lparr>href = u, target = js ''_blank'', rel = js ''noopener noreferrer'',
                         label = js ''Live Demo''\<rparr>)\<rparr>)"

section \<open>Example projects\<close>

text \<open>A project with every optional field set; its title needs escaping.\<close>

definition demoProject :: Project where
  "demoProject =
     \<lparr>title = js ''My App'', description = js ''A demo'', category = js ''blockchain'',
      technologies = [js ''React'', js ''Solidity''],
      imageUrl = Some (js ''/img/app.png''),
      github = Some (js ''https://github.com/u/r''),
      liveDemo = Some (js ''https://app.example''),
      featured = Some True\<rparr>"

text \<open>The card of \<open>demoProject\<close> on its first render.\<close>

definition demoCard :: Card where
  "demoCard =
     \<lparr>spinner = Some (js ''Loading preview...''),
      picture =
        \<lparr>src = js ''/img/app.png'', alt = js ''Preview of My App'',
         className = js ''h-full w-full object-cover transition-all duration-500 opacity-0''\<rparr>,
      liveDemoBadge = Some (js ''LIVE DEMO''),
      featuredBadge = Some (0x2B50 # js '' Featured''),
      categoryBadge = js ''blockchain'',
      titleText = js ''My App'',
      descriptionText = js ''A demo'',
      tags = [js ''React'', js ''Solidity''],
      codeLink =
        Some \<lparr>href = js ''https://github.com/u/r'', target = js ''_blank'',
              rel = js ''noopener noreferrer'', label = js ''Code''\<rparr>,
      demoLink =
        Some \<lparr>href = js ''https://app.example'', target = js ''_blank'',
              rel = js ''noopener noreferrer'', label = js ''Live Demo''\<rparr>\<rparr>"

text \<open>A project without optional fields, of a category given as argument.\<close>

definition plainProject :: "jsstring \<Rightarrow> jsstring \<Rightarrow> Project" where
  "plainProject t c =
     \<lparr>title = t, description = [], category = c, technologies = [],
      imageUrl = None, github = None, liveDemo = None, featured = None\<rparr>"

text \<open>The projects at which the claims below are evaluated.\<close>

definition protoCategoryProject :: Project where
  "protoCategoryProject = plainProject (js ''X'') (js ''__proto__'')"

definition loneSurrogateProject :: Project where
  "loneSurrogateProject = plainProject [0xD800] (js ''frontend'')"

definition brokenImageProject :: Project where
  "brokenImageProject = loneSurrogateProject\<lparr>imageUrl := Some (js ''a.png'')\<rparr>"

definition emptyLinksProject :: Project where
  "emptyLinksProject =
     (plainProject (js ''X'') (js ''frontend''))\<lparr>github := Some [], liveDemo := Some []\<rparr>"

definition emptyImageProject :: Project where
  "emptyImageProject = (plainProject (js ''X'') (js ''frontend''))\<lparr>imageUrl := Some []\<rparr>"

definition protoImageProject :: Project where
  "protoImageProject = protoCategoryProject\<lparr>imageUrl := Some (js ''a.png'')\<rparr>"

definition emptyImageProtoProject :: Project where
  "emptyImageProtoProject = protoCategoryProject\<lparr>imageUrl := Some []\<rparr>"

definition emptyImageLoneSurrogateProject :: Project where
  "emptyImageLoneSurrogateProject = loneSurrogateProject\<lparr>imageUrl := Some []\<rparr>"

text \<open>A project with both links and the featured flag, whose title cannot be escaped.\<close>

definition unrenderableProject :: Project where
  "unrenderableProject =
     loneSurrogateProject
       \<lparr>github := Some (js ''https://github.com/u/r''),
        liveDemo := Some (js ''https://app.example''),
        featured := Some True\<rparr>"

section \<open>String literals\<close>

lemma unat_of_char: "unat (of_char c :: 16 word) = of_char c"
proof -
  have "(of_char c :: nat) < 2 ^ 16"
    by (rule less_trans [OF nat_of_char_less_256]) simp
  then have "unat (of_nat (of_char c) :: 16 word) = of_char c"
    by (simp add: unat_of_nat)
  then show ?thesis by (simp add: of_nat_of_char)
qed

lemma of_char_word_inject: "((of_char a :: 16 word) = of_char b) = (a = b)"
proof
  assume "(of_char a :: 16 word) = of_char b"
  then have "unat (of_char a :: 16 word) = unat (of_char b :: 16 word)" by simp
  then have "(of_char a :: nat) = of_char b" by (simp only: unat_of_char)
  then show "a = b" by simp
qed simp

lemma js_inject: "(js a = js b) = (a = b)"
  unfolding js_def
  by (rule inj_map_eq_map) (simp add: inj_on_def of_char_word_inject)

lemma js_eq_Nil: "(js s = []) = (s = [])"
  by (simp add: js_def)

lemma js_append: "js a @ js b = js (a @ b)"
  by (simp add: js_def)

lemma js_append_assoc: "js a @ js b @ r = js (a @ b) @ r"
  by (simp add: js_def)

lemmas js_simps = js_inject js_eq_Nil js_append js_append_assoc

lemmas encode_defs =
  encodeURIComponent_def uriUnescaped_def isLeadSurrogate_def isTrailSurrogate_def
  surrogatePair_def utf8_def hexDigit_def percent_def prepend_def

lemmas render_defs =
  ProjectCard_def getImageSource_def placeholderSource_def getProperty_def
  categoryColors_def objectPrototype_def inheritedKeys_def inheritedMethods_def
  whenTruthy_def optionalString_def optionalBool_def initialState_def
  handleImageLoad_def handleImageError_def

lemma encode_X: "encodeURIComponent (js ''X'') = Inr (js ''X'')"
  by (simp add: encode_defs js_def)

lemma encode_My_App: "encodeURIComponent (js ''My App'') = Inr (js ''My%20App'')"
  by (simp add: encode_defs js_def)

lemma encode_lone_surrogate: "encodeURIComponent [0xD800] = Inl URIError"
  by (simp add: encode_defs)

text \<open>
  Escaping covers the whole of UTF-16: a Latin-1 letter, a sign of the basic plane and a
  surrogate pair give two, three and four escaped bytes.
\<close>

lemma encode_beyond_ascii:
  "encodeURIComponent [0x48, 0xE9, 0x20AC, 0xD83D, 0xDE00] =
   Inr (js ''H%C3%A9%E2%82%AC%F0%9F%98%80'')"
  by (simp add: encode_defs js_def)

section \<open>The image source\<close>

lemma getImageSource_image:
  "imageUrl p = Some u \<Longrightarrow> u \<noteq> [] \<Longrightarrow> \<not> imageError st \<Longrightarrow> getImageSource p st = Inr u"
  by (simp add: getImageSource_def)

lemma getImageSource_fallback:
  "imageUrl p = None \<or> imageUrl p = Some [] \<or> imageError st \<Longrightarrow>
   getImageSource p st = placeholderSource p"
  by (auto simp: getImageSource_def split: option.splits)

lemma color_of_category:
  "k \<notin> set inheritedKeys \<Longrightarrow>
   toStringJS (if truthy (getProperty categoryColors k) then getProperty categoryColors k
               else Str (js ''1e293b/64748b'')) =
   (if k = js ''blockchain'' then js ''1e293b/0ea5e9''
    else if k = js ''frontend'' then js ''1e1b4b/a855f7''
    else if k = js ''fullstack'' then js ''422006/d97706''
    else js ''1e293b/64748b'')"
  by (simp add: getProperty_def categoryColors_def objectPrototype_def inheritedKeys_def
      js_eq_Nil)

lemma ProjectCard_src:
  "getImageSource p st = Inr s \<Longrightarrow> \<exists>v. ProjectCard p i st = Inr v \<and> src (picture v) = s"
  by (simp add: ProjectCard_def)

lemma demoProject_renders: "ProjectCard demoProject 0 initialState = Inr demoCard"
  by (simp add: demoProject_def demoCard_def render_defs js_simps)

text \<open>
  C1. For every project whose \<open>image\<close> is a non-empty string, in a render state where no
  image error has occurred, the source given to the image element is \<open>project.image\<close>
  itself, and the render returns a card.
\<close>

theorem image_source_is_project_image:
  assumes "imageUrl p = Some u" and "u \<noteq> []" and "\<not> imageError st"
  shows "getImageSource p st = Inr u \<and>
         (\<exists>v. ProjectCard p i st = Inr v \<and> src (picture v) = u)"
  using assms by (simp add: getImageSource_image ProjectCard_src)

theorem image_source_is_project_image_witness:
  "imageUrl demoProject = Some (js ''/img/app.png'') \<and> js ''/img/app.png'' \<noteq> [] \<and>
   \<not> imageError initialState \<and>
   getImageSource demoProject initialState = Inr (js ''/img/app.png'') \<and>
   (\<exists>v. ProjectCard demoProject 0 initialState = Inr v \<and>
        src (picture v) = js ''/img/app.png'')"
proof -
  have a: "imageUrl demoProject = Some (js ''/img/app.png'')"
    by (simp add: demoProject_def)
  have b: "js ''/img/app.png'' \<noteq> []"
    by (simp add: js_eq_Nil)
  have c: "\<not> imageError initialState"
    by (simp add: initialState_def)
  from image_source_is_project_image [OF a b c, of 0] a b c show ?thesis
    by blast
qed

text \<open>
  C2, as amended. For every project without an \<open>image\<close>, or in a render state after an
  image error, whose category is not the name of a property that object literals inherit
  from \<open>Object.prototype\<close> and whose title \<open>encodeURIComponent\<close> accepts, the image
  source is \<open>https://via.placeholder.com/800x600/\<close> followed by the colour pair, by
  \<open>?text=\<close> and by the escaped title; the pair is 1e293b/0ea5e9 for blockchain,
  1e1b4b/a855f7 for frontend, 422006/d97706 for fullstack and 1e293b/64748b for any other
  such category.
\<close>

theorem placeholder_source_by_category:
  assumes "imageUrl p = None \<or> imageError st"
    and "category p \<notin> set inheritedKeys"
    and "encodeURIComponent (title p) = Inr t"
  shows "\<exists>v. ProjectCard p i st = Inr v \<and>
           src (picture v) =
             js ''https://via.placeholder.com/800x600/'' @
             (if category p = js ''blockchain'' then js ''1e293b/0ea5e9''
              else if category p = js ''frontend'' then js ''1e1b4b/a855f7''
              else if category p = js ''fullstack'' then js ''422006/d97706''
              else js ''1e293b/64748b'') @
             js ''?text='' @ t"
proof -
  have "getImageSource p st = placeholderSource p"
    using assms(1) by (auto intro: getImageSource_fallback)
  also have "\<dots> =
      Inr (js ''https://via.placeholder.com/800x600/'' @
             (if category p = js ''blockchain'' then js ''1e293b/0ea5e9''
              else if category p = js ''frontend'' then js ''1e1b4b/a855f7''
              else if category p = js ''fullstack'' then js ''422006/d97706''
              else js ''1e293b/64748b'') @
             js ''?text='' @ t)"
    unfolding placeholderSource_def Let_def
    by (simp only: color_of_category [OF assms(2)] assms(3) sum.case)
  finally show ?thesis by (rule ProjectCard_src)
qed

theorem placeholder_source_by_category_witness:
  "(imageUrl demoProject = None \<or> imageError (handleImageError initialState)) \<and>
   category demoProject \<notin> set inheritedKeys \<and>
   encodeURIComponent (title demoProject) = Inr (js ''My%20App'') \<and>
   (\<exists>v. ProjectCard demoProject 0 (handleImageError initialState) = Inr v \<and>
        src (picture v) =
          js ''https://via.placeholder.com/800x600/1e293b/0ea5e9?text=My%20App'')"
proof -
  have a: "imageUrl demoProject = None \<or> imageError (handleImageError initialState)"
    by (simp add: handleImageError_def)
  have b: "category demoProject \<notin> set inheritedKeys"
    by (simp add: demoProject_def inheritedKeys_def inheritedMethods_def js_inject)
  have c: "encodeURIComponent (title demoProject) = Inr (js ''My%20App'')"
    by (simp add: demoProject_def encode_My_App)
  have d: "category demoProject = js ''blockchain''"
    by (simp add: demoProject_def)
  from placeholder_source_by_category [OF a b c, of 0]
  have "\<exists>v. ProjectCard demoProject 0 (handleImageError initialState) = Inr v \<and>
        src (picture v) =
          js ''https://via.placeholder.com/800x600/1e293b/0ea5e9?text=My%20App''"
    by (simp add: d js_simps)
  with a b c show ?thesis by blast
qed

theorem placeholder_source_by_category_counterexample:
  "js ''__proto__'' \<notin> set (map js [''blockchain'', ''frontend'', ''fullstack'']) \<and>
   map_sum id (src \<circ> picture) (ProjectCard protoCategoryProject 0 initialState) =
     Inr (js ''https://via.placeholder.com/800x600/[object Object]?text=X'') \<and>
   js ''https://via.placeholder.com/800x600/[object Object]?text=X'' \<noteq>
     js ''https://via.placeholder.com/800x600/1e293b/64748b?text=X'' \<and>
   ProjectCard loneSurrogateProject 0 initialState = Inl URIError"
  by (simp add: protoCategoryProject_def loneSurrogateProject_def plainProject_def
      render_defs encode_X encode_lone_surrogate js_simps)

text \<open>
  The fallback, written out: it returns exactly when \<open>encodeURIComponent\<close> accepts the
  title, and for a category that names no inherited property the colour pair is the one
  of the table or the default.
\<close>

lemma placeholderSource_explicit:
  assumes "category p \<notin> set inheritedKeys"
    and "encodeURIComponent (title p) = Inr t"
  shows "placeholderSource p =
      Inr (js ''https://via.placeholder.com/800x600/'' @
             (if category p = js ''blockchain'' then js ''1e293b/0ea5e9''
              else if category p = js ''frontend'' then js ''1e1b4b/a855f7''
              else if category p = js ''fullstack'' then js ''422006/d97706''
              else js ''1e293b/64748b'') @
             js ''?text='' @ t)"
  unfolding placeholderSource_def Let_def
  by (simp only: color_of_category [OF assms(1)] assms(2) sum.case)

lemma placeholderSource_unset: "placeholderSource (p\<lparr>imageUrl := None\<rparr>) = placeholderSource p"
  by (simp add: placeholderSource_def)

lemma getImageSource_unset: "getImageSource (p\<lparr>imageUrl := None\<rparr>) st = placeholderSource p"
  by (simp add: getImageSource_def placeholderSource_unset)

lemma getImageSource_returns:
  assumes "(\<exists>u. imageUrl p = Some u \<and> u \<noteq> [] \<and> \<not> imageError st) \<or>
           (\<exists>t. encodeURIComponent (title p) = Inr t)"
  shows "\<exists>s. getImageSource p st = Inr s"
  using assms
proof
  assume "\<exists>u. imageUrl p = Some u \<and> u \<noteq> [] \<and> \<not> imageError st"
  then show ?thesis by (auto simp: getImageSource_image)
next
  assume "\<exists>t. encodeURIComponent (title p) = Inr t"
  then obtain t where "encodeURIComponent (title p) = Inr t" ..
  then have "\<exists>s. placeholderSource p = Inr s"
    by (simp add: placeholderSource_def Let_def)
  then show ?thesis
    by (auto simp: getImageSource_def split: option.splits)
qed

lemma ProjectCard_returns:
  assumes "(\<exists>u. imageUrl p = Some u \<and> u \<noteq> [] \<and> \<not> imageError st) \<or>
           (\<exists>t. encodeURIComponent (title p) = Inr t)"
  shows "\<exists>v. ProjectCard p i st = Inr v"
proof -
  from getImageSource_returns [OF assms] obtain s where "getImageSource p st = Inr s" ..
  then show ?thesis by (simp add: ProjectCard_def)
qed

lemma demoProject_image_used:
  "(\<exists>u. imageUrl demoProject = Some u \<and> u \<noteq> [] \<and> \<not> imageError initialState) \<or>
   (\<exists>t. encodeURIComponent (title demoProject) = Inr t)"
  by (simp add: demoProject_def initialState_def js_eq_Nil)

lemma unrenderableProject_fields:
  "github unrenderableProject = Some (js ''https://github.com/u/r'')"
  "liveDemo unrenderableProject = Some (js ''https://app.example'')"
  "featured unrenderableProject = Some True"
  by (simp_all add: unrenderableProject_def)

lemma unrenderableProject_throws: "ProjectCard unrenderableProject 0 initialState = Inl URIError"
  by (simp add: unrenderableProject_def loneSurrogateProject_def plainProject_def
      render_defs encode_lone_surrogate js_simps)

section \<open>The image callbacks and the flags\<close>

text \<open>
  C3, as amended. An image error event sets the error flag and clears the loading flag.
  For every project whose title \<open>encodeURIComponent\<close> accepts and whose category is not
  the name of a property inherited from \<open>Object.prototype\<close>, the next render returns a
  card (nothing is thrown to the caller) whose image source is the placeholder URL of
  the category, with the escaped title, and which has no loading spinner; the card is the
  one a project without \<open>image\<close> gets once its picture has loaded, so it carries no error
  message.
\<close>

theorem image_error_falls_back_to_placeholder:
  assumes "encodeURIComponent (title p) = Inr t"
    and "category p \<notin> set inheritedKeys"
  shows "handleImageError st = \<lparr>imageError = True, imageLoading = False\<rparr> \<and>
         (\<exists>v. ProjectCard p i (handleImageError st) = Inr v \<and>
              src (picture v) =
                js ''https://via.placeholder.com/800x600/'' @
                (if category p = js ''blockchain'' then js ''1e293b/0ea5e9''
                 else if category p = js ''frontend'' then js ''1e1b4b/a855f7''
                 else if category p = js ''fullstack'' then js ''422006/d97706''
                 else js ''1e293b/64748b'') @
                js ''?text='' @ t \<and>
              spinner v = None \<and>
              ProjectCard (p\<lparr>imageUrl := None\<rparr>) i (handleImageLoad initialState) = Inr v)"
proof -
  have flags: "handleImageError st = \<lparr>imageError = True, imageLoading = False\<rparr>"
    by (simp add: handleImageError_def)
  have after: "getImageSource p (handleImageError st) = placeholderSource p"
    by (rule getImageSource_fallback) (simp add: handleImageError_def)
  note s = placeholderSource_explicit [OF assms(2) assms(1)]
  have unset: "getImageSource (p\<lparr>imageUrl := None\<rparr>) (handleImageLoad initialState) =
      placeholderSource p"
    by (rule getImageSource_unset)
  have off: "\<not> imageLoading (handleImageError st)"
    "\<not> imageLoading (handleImageLoad initialState)"
    by (simp_all add: handleImageError_def handleImageLoad_def)
  have same: "ProjectCard (p\<lparr>imageUrl := None\<rparr>) i (handleImageLoad initialState) =
        ProjectCard p i (handleImageError st)"
    by (simp add: ProjectCard_def after unset off s)
  have "\<exists>v. ProjectCard p i (handleImageError st) = Inr v \<and>
      src (picture v) =
        js ''https://via.placeholder.com/800x600/'' @
        (if category p = js ''blockchain'' then js ''1e293b/0ea5e9''
         else if category p = js ''frontend'' then js ''1e1b4b/a855f7''
         else if category p = js ''fullstack'' then js ''422006/d97706''
         else js ''1e293b/64748b'') @
        js ''?text='' @ t \<and>
      spinner v = None"
    by (simp add: ProjectCard_def after s off whenTruthy_def)
  with same flags show ?thesis by auto
qed

theorem image_error_falls_back_to_placeholder_witness:
  "encodeURIComponent (title demoProject) = Inr (js ''My%20App'') \<and>
   category demoProject \<notin> set inheritedKeys \<and>
   getImageSource demoProject initialState = Inr (js ''/img/app.png'') \<and>
   handleImageError initialState = \<lparr>imageError = True, imageLoading = False\<rparr> \<and>
   (\<exists>v. ProjectCard demoProject 0 (handleImageError initialState) = Inr v \<and>
        src (picture v) =
          js ''https://via.placeholder.com/800x600/1e293b/0ea5e9?text=My%20App'' \<and>
        spinner v = None \<and>
        ProjectCard (demoProject\<lparr>imageUrl := None\<rparr>) 0 (handleImageLoad initialState) =
          Inr v)"
proof -
  have a: "encodeURIComponent (title demoProject) = Inr (js ''My%20App'')"
    by (simp add: demoProject_def encode_My_App)
  have b: "category demoProject \<notin> set inheritedKeys"
    by (simp add: demoProject_def inheritedKeys_def inheritedMethods_def js_inject)
  have c: "getImageSource demoProject initialState = Inr (js ''/img/app.png'')"
    by (simp add: demoProject_def getImageSource_def initialState_def js_eq_Nil)
  have d: "category demoProject = js ''blockchain''"
    by (simp add: demoProject_def)
  have url:
    "js ''https://via.placeholder.com/800x600/'' @
     (if category demoProject = js ''blockchain'' then js ''1e293b/0ea5e9''
      else if category demoProject = js ''frontend'' then js ''1e1b4b/a855f7''
      else if category demoProject = js ''fullstack'' then js ''422006/d97706''
      else js ''1e293b/64748b'') @
     js ''?text='' @ js ''My%20App'' =
     js ''https://via.placeholder.com/800x600/1e293b/0ea5e9?text=My%20App''"
    by (simp add: d js_simps)
  from image_error_falls_back_to_placeholder [OF a b, of initialState 0, unfolded url]
    a b c
  show ?thesis by blast
qed

theorem image_error_falls_back_to_placeholder_counterexample:
  "getImageSource brokenImageProject initialState = Inr (js ''a.png'') \<and>
   handleImageError initialState = \<lparr>imageError = True, imageLoading = False\<rparr> \<and>
   ProjectCard brokenImageProject 0 (handleImageError initialState) = Inl URIError \<and>
   getImageSource protoImageProject initialState = Inr (js ''a.png'') \<and>
   map_sum id (src \<circ> picture)
     (ProjectCard protoImageProject 0 (handleImageError initialState)) =
     Inr (js ''https://via.placeholder.com/800x600/[object Object]?text=X'') \<and>
   js ''https://via.placeholder.com/800x600/[object Object]?text=X'' \<noteq>
     js ''https://via.placeholder.com/800x600/1e293b/64748b?text=X''"
  by (simp add: brokenImageProject_def loneSurrogateProject_def protoImageProject_def
      protoCategoryProject_def plainProject_def render_defs encode_X
      encode_lone_surrogate js_simps)

lemma loading_stays_false:
  "\<not> imageLoading st \<Longrightarrow>
   map imageLoading (states st es) = replicate (Suc (length es)) False"
proof (induction es arbitrary: st)
  case Nil
  then show ?case by simp
next
  case (Cons e es)
  have "\<not> imageLoading (dispatch st e)"
    by (cases e) (simp_all add: handleImageLoad_def handleImageError_def)
  then show ?case using Cons by simp
qed

text \<open>
  C4. From the initial state (loading, no error), under any sequence of load and error
  events, \<open>imageLoading\<close> is true before the first event and false after it and after
  every later one: it becomes false once, at the first event, and never becomes true
  again.
\<close>

theorem imageLoading_false_from_first_event:
  "map imageLoading (states initialState es) = True # replicate (length es) False"
proof (cases es)
  case Nil
  then show ?thesis by (simp add: initialState_def)
next
  case (Cons e es')
  have "\<not> imageLoading (dispatch initialState e)"
    by (cases e) (simp_all add: handleImageLoad_def handleImageError_def)
  then show ?thesis
    using Cons by (simp add: loading_stays_false initialState_def)
qed

theorem imageLoading_false_from_first_event_witness:
  "map imageLoading (states initialState [ImageError, ImageLoad, ImageError]) =
   [True, False, False, False]"
  using imageLoading_false_from_first_event [of "[ImageError, ImageLoad, ImageError]"]
  by (simp add: numeral_3_eq_3)

text \<open>
  C10. A load event clears \<open>imageLoading\<close> and leaves \<open>imageError\<close> as it is, so the
  image source selected for any project is the same before and after it.
\<close>

theorem load_event_keeps_image_source:
  "imageError (handleImageLoad st) = imageError st \<and>
   imageLoading (handleImageLoad st) = False \<and>
   getImageSource p (handleImageLoad st) = getImageSource p st"
  by (simp add: handleImageLoad_def getImageSource_def split: option.splits)

theorem load_event_keeps_image_source_witness:
  "imageError (handleImageLoad initialState) = imageError initialState \<and>
   imageLoading (handleImageLoad initialState) = False \<and>
   getImageSource demoProject (handleImageLoad initialState) =
     getImageSource demoProject initialState"
  by (rule load_event_keeps_image_source)

text \<open>
  C9, as amended. A project whose \<open>image\<close> is the empty string is treated as one without
  \<open>image\<close>: when its title is one \<open>encodeURIComponent\<close> accepts and its category is not
  the name of a property inherited from \<open>Object.prototype\<close>, it renders in every state,
  also before any error, with the placeholder URL of its category as image source, and
  its card is that of the same project with the field unset.
\<close>

theorem empty_image_treated_as_unset:
  assumes "imageUrl p = Some []"
    and "encodeURIComponent (title p) = Inr t"
    and "category p \<notin> set inheritedKeys"
  shows "\<exists>v. ProjectCard p i st = Inr v \<and>
           src (picture v) =
             js ''https://via.placeholder.com/800x600/'' @
             (if category p = js ''blockchain'' then js ''1e293b/0ea5e9''
              else if category p = js ''frontend'' then js ''1e1b4b/a855f7''
              else if category p = js ''fullstack'' then js ''422006/d97706''
              else js ''1e293b/64748b'') @
             js ''?text='' @ t \<and>
           ProjectCard (p\<lparr>imageUrl := None\<rparr>) i st = Inr v"
proof -
  note s = placeholderSource_explicit [OF assms(3) assms(2)]
  have here: "getImageSource p st = placeholderSource p"
    using assms(1) by (simp add: getImageSource_def)
  have "ProjectCard (p\<lparr>imageUrl := None\<rparr>) i st = ProjectCard p i st"
    by (simp add: ProjectCard_def here getImageSource_unset s)
  moreover have "\<exists>v. ProjectCard p i st = Inr v \<and>
           src (picture v) =
             js ''https://via.placeholder.com/800x600/'' @
             (if category p = js ''blockchain'' then js ''1e293b/0ea5e9''
              else if category p = js ''frontend'' then js ''1e1b4b/a855f7''
              else if category p = js ''fullstack'' then js ''422006/d97706''
              else js ''1e293b/64748b'') @
             js ''?text='' @ t"
    by (simp add: ProjectCard_def here s)
  ultimately show ?thesis by auto
qed

theorem empty_image_treated_as_unset_witness:
  "imageUrl emptyImageProject = Some [] \<and>
   encodeURIComponent (title emptyImageProject) = Inr (js ''X'') \<and>
   category emptyImageProject \<notin> set inheritedKeys \<and>
   \<not> imageError initialState \<and>
   (\<exists>v. ProjectCard emptyImageProject 0 initialState = Inr v \<and>
        src (picture v) = js ''https://via.placeholder.com/800x600/1e1b4b/a855f7?text=X'' \<and>
        ProjectCard (emptyImageProject\<lparr>imageUrl := None\<rparr>) 0 initialState = Inr v)"
proof -
  have a: "imageUrl emptyImageProject = Some []"
    by (simp add: emptyImageProject_def)
  have b: "encodeURIComponent (title emptyImageProject) = Inr (js ''X'')"
    by (simp add: emptyImageProject_def plainProject_def encode_X)
  have c: "category emptyImageProject \<notin> set inheritedKeys"
    by (simp add: emptyImageProject_def plainProject_def inheritedKeys_def
        inheritedMethods_def js_inject)
  have d: "category emptyImageProject = js ''frontend''"
    by (simp add: emptyImageProject_def plainProject_def)
  have e: "\<not> imageError initialState"
    by (simp add: initialState_def)
  have url:
    "js ''https://via.placeholder.com/800x600/'' @
     (if category emptyImageProject = js ''blockchain'' then js ''1e293b/0ea5e9''
      else if category emptyImageProject = js ''frontend'' then js ''1e1b4b/a855f7''
      else if category emptyImageProject = js ''fullstack'' then js ''422006/d97706''
      else js ''1e293b/64748b'') @
     js ''?text='' @ js ''X'' =
     js ''https://via.placeholder.com/800x600/1e1b4b/a855f7?text=X''"
    by (simp add: d js_simps)
  from empty_image_treated_as_unset [OF a b c, of 0 initialState, unfolded url]
    a b c e
  show ?thesis by blast
qed

theorem empty_image_treated_as_unset_counterexample:
  "imageUrl emptyImageLoneSurrogateProject = Some [] \<and>
   ProjectCard emptyImageLoneSurrogateProject 0 initialState = Inl URIError \<and>
   imageUrl emptyImageProtoProject = Some [] \<and>
   map_sum id (src \<circ> picture) (ProjectCard emptyImageProtoProject 0 initialState) =
     Inr (js ''https://via.placeholder.com/800x600/[object Object]?text=X'') \<and>
   js ''https://via.placeholder.com/800x600/[object Object]?text=X'' \<noteq>
     js ''https://via.placeholder.com/800x600/1e293b/64748b?text=X''"
  by (simp add: emptyImageLoneSurrogateProject_def emptyImageProtoProject_def
      loneSurrogateProject_def protoCategoryProject_def plainProject_def render_defs
      encode_X encode_lone_surrogate js_simps)

section \<open>Badges, tags and links\<close>

lemma ProjectCard_fields:
  assumes "ProjectCard p i st = Inr v"
  shows "liveDemoBadge v = whenTruthy (optionalString (liveDemo p)) (js ''LIVE DEMO'')"
    and "featuredBadge v = whenTruthy (optionalBool (featured p)) (0x2B50 # js '' Featured'')"
    and "codeLink v =
         (case github p of
            None \<Rightarrow> None
          | Some u \<Rightarrow>
              whenTruthy (Str u)
                \<lparr>href = u, target = js ''_blank'', rel = js ''noopener noreferrer'',
                 label = js ''Code''\<rparr>)"
    and "demoLink v =
         (case liveDemo p of
            None \<Rightarrow> None
          | Some u \<Rightarrow>
              whenTruthy (Str u)
                \<lparr>href = u, target = js ''_blank'', rel = js ''noopener noreferrer'',
                 label = js ''Live Demo''\<rparr>)"
    and "tags v = technologies p"
  using assms by (cases "getImageSource p st"; auto simp: ProjectCard_def)+

text \<open>
  C5, as amended. For every project that renders (its image is used, or
  \<open>encodeURIComponent\<close> accepts its title), the card has the code link exactly when
  \<open>github\<close> is a non-empty string and the live-demo link exactly when \<open>liveDemo\<close> is a
  non-empty string; a link that is present has target \<open>_blank\<close> and rel
  \<open>noopener noreferrer\<close>.
\<close>

theorem links_rendered_iff_truthy:
  assumes "(\<exists>u. imageUrl p = Some u \<and> u \<noteq> [] \<and> \<not> imageError st) \<or>
           (\<exists>t. encodeURIComponent (title p) = Inr t)"
  shows "\<exists>v. ProjectCard p i st = Inr v \<and>
           (codeLink v \<noteq> None) = (\<exists>u. github p = Some u \<and> u \<noteq> []) \<and>
           (demoLink v \<noteq> None) = (\<exists>u. liveDemo p = Some u \<and> u \<noteq> []) \<and>
           (codeLink v = None \<or>
            (\<exists>a. codeLink v = Some a \<and> target a = js ''_blank'' \<and>
                 rel a = js ''noopener noreferrer'')) \<and>
           (demoLink v = None \<or>
            (\<exists>a. demoLink v = Some a \<and> target a = js ''_blank'' \<and>
                 rel a = js ''noopener noreferrer''))"
proof -
  from ProjectCard_returns [OF assms] obtain v where v: "ProjectCard p i st = Inr v" ..
  have "(codeLink v \<noteq> None) = (\<exists>u. github p = Some u \<and> u \<noteq> [])"
    and "(demoLink v \<noteq> None) = (\<exists>u. liveDemo p = Some u \<and> u \<noteq> [])"
    and "codeLink v = None \<or>
         (\<exists>a. codeLink v = Some a \<and> target a = js ''_blank'' \<and>
              rel a = js ''noopener noreferrer'')"
    and "demoLink v = None \<or>
         (\<exists>a. demoLink v = Some a \<and> target a = js ''_blank'' \<and>
              rel a = js ''noopener noreferrer'')"
    by (simp_all add: ProjectCard_fields [OF v] whenTruthy_def split: option.splits)
  with v show ?thesis by blast
qed

theorem links_rendered_iff_truthy_witness:
  "((\<exists>u. imageUrl demoProject = Some u \<and> u \<noteq> [] \<and> \<not> imageError initialState) \<or>
    (\<exists>t. encodeURIComponent (title demoProject) = Inr t)) \<and>
   (\<exists>v. ProjectCard demoProject 0 initialState = Inr v \<and>
        (codeLink v \<noteq> None) = (\<exists>u. github demoProject = Some u \<and> u \<noteq> []) \<and>
        (demoLink v \<noteq> None) = (\<exists>u. liveDemo demoProject = Some u \<and> u \<noteq> []) \<and>
        (codeLink v = None \<or>
         (\<exists>a. codeLink v = Some a \<and> target a = js ''_blank'' \<and>
              rel a = js ''noopener noreferrer'')) \<and>
        (demoLink v = None \<or>
         (\<exists>a. demoLink v = Some a \<and> target a = js ''_blank'' \<and>
              rel a = js ''noopener noreferrer''))) \<and>
   ProjectCard demoProject 0 initialState = Inr demoCard \<and>
   codeLink demoCard \<noteq> None \<and> demoLink demoCard \<noteq> None"
proof -
  have "codeLink demoCard \<noteq> None \<and> demoLink demoCard \<noteq> None"
    by (simp add: demoCard_def)
  with links_rendered_iff_truthy [OF demoProject_image_used, of 0]
    demoProject_image_used demoProject_renders
  show ?thesis by blast
qed

theorem links_rendered_iff_truthy_counterexample:
  "github emptyLinksProject = Some [] \<and> liveDemo emptyLinksProject = Some [] \<and>
   map_sum id codeLink (ProjectCard emptyLinksProject 0 initialState) = Inr None \<and>
   map_sum id demoLink (ProjectCard emptyLinksProject 0 initialState) = Inr None \<and>
   github unrenderableProject = Some (js ''https://github.com/u/r'') \<and>
   liveDemo unrenderableProject = Some (js ''https://app.example'') \<and>
   ProjectCard unrenderableProject 0 initialState = Inl URIError"
proof -
  have "github emptyLinksProject = Some [] \<and> liveDemo emptyLinksProject = Some [] \<and>
     map_sum id codeLink (ProjectCard emptyLinksProject 0 initialState) = Inr None \<and>
     map_sum id demoLink (ProjectCard emptyLinksProject 0 initialState) = Inr None"
    by (simp add: emptyLinksProject_def plainProject_def render_defs encode_X js_simps)
  with unrenderableProject_fields(1,2) unrenderableProject_throws
  show ?thesis by blast
qed

text \<open>
  C6, as amended. For every project that renders (its image is used, or
  \<open>encodeURIComponent\<close> accepts its title), the card has the badge \<open>LIVE DEMO\<close> exactly
  when \<open>project.liveDemo\<close> is truthy, that is a non-empty string.
\<close>

theorem live_demo_badge_iff_truthy:
  assumes "(\<exists>u. imageUrl p = Some u \<and> u \<noteq> [] \<and> \<not> imageError st) \<or>
           (\<exists>t. encodeURIComponent (title p) = Inr t)"
  shows "\<exists>v. ProjectCard p i st = Inr v \<and>
           (liveDemoBadge v \<noteq> None) = (\<exists>u. liveDemo p = Some u \<and> u \<noteq> []) \<and>
           (liveDemoBadge v = None \<or> liveDemoBadge v = Some (js ''LIVE DEMO''))"
proof -
  from ProjectCard_returns [OF assms] obtain v where v: "ProjectCard p i st = Inr v" ..
  have "(liveDemoBadge v \<noteq> None) = (\<exists>u. liveDemo p = Some u \<and> u \<noteq> [])"
    and "liveDemoBadge v = None \<or> liveDemoBadge v = Some (js ''LIVE DEMO'')"
    by (simp_all add: ProjectCard_fields [OF v] whenTruthy_def optionalString_def
        split: option.splits)
  with v show ?thesis by blast
qed

theorem live_demo_badge_iff_truthy_witness:
  "((\<exists>u. imageUrl demoProject = Some u \<and> u \<noteq> [] \<and> \<not> imageError initialState) \<or>
    (\<exists>t. encodeURIComponent (title demoProject) = Inr t)) \<and>
   (\<exists>v. ProjectCard demoProject 0 initialState = Inr v \<and>
        (liveDemoBadge v \<noteq> None) = (\<exists>u. liveDemo demoProject = Some u \<and> u \<noteq> []) \<and>
        (liveDemoBadge v = None \<or> liveDemoBadge v = Some (js ''LIVE DEMO''))) \<and>
   ProjectCard demoProject 0 initialState = Inr demoCard \<and>
   liveDemoBadge demoCard = Some (js ''LIVE DEMO'')"
proof -
  have "liveDemoBadge demoCard = Some (js ''LIVE DEMO'')"
    by (simp add: demoCard_def)
  with live_demo_badge_iff_truthy [OF demoProject_image_used, of 0]
    demoProject_image_used demoProject_renders
  show ?thesis by blast
qed

theorem live_demo_badge_iff_truthy_counterexample:
  "liveDemo unrenderableProject = Some (js ''https://app.example'') \<and>
   js ''https://app.example'' \<noteq> [] \<and>
   ProjectCard unrenderableProject 0 initialState = Inl URIError"
  by (simp add: unrenderableProject_throws unrenderableProject_fields js_eq_Nil)

text \<open>
  C7, as amended. For every project that renders (its image is used, or
  \<open>encodeURIComponent\<close> accepts its title), the card has the badge \<open>Featured\<close> exactly
  when \<open>project.featured\<close> is true.
\<close>

theorem featured_badge_iff_true:
  assumes "(\<exists>u. imageUrl p = Some u \<and> u \<noteq> [] \<and> \<not> imageError st) \<or>
           (\<exists>t. encodeURIComponent (title p) = Inr t)"
  shows "\<exists>v. ProjectCard p i st = Inr v \<and>
           (featuredBadge v \<noteq> None) = (featured p = Some True)"
proof -
  from ProjectCard_returns [OF assms] obtain v where v: "ProjectCard p i st = Inr v" ..
  have "(featuredBadge v \<noteq> None) = (featured p = Some True)"
    by (simp add: ProjectCard_fields [OF v] whenTruthy_def optionalBool_def
        split: option.splits)
  with v show ?thesis by blast
qed

theorem featured_badge_iff_true_witness:
  "((\<exists>u. imageUrl demoProject = Some u \<and> u \<noteq> [] \<and> \<not> imageError initialState) \<or>
    (\<exists>t. encodeURIComponent (title demoProject) = Inr t)) \<and>
   (\<exists>v. ProjectCard demoProject 0 initialState = Inr v \<and>
        (featuredBadge v \<noteq> None) = (featured demoProject = Some True)) \<and>
   ProjectCard demoProject 0 initialState = Inr demoCard \<and>
   featured demoProject = Some True \<and> featuredBadge demoCard \<noteq> None"
proof -
  have "featured demoProject = Some True \<and> featuredBadge demoCard \<noteq> None"
    by (simp add: demoProject_def demoCard_def)
  with featured_badge_iff_true [OF demoProject_image_used, of 0]
    demoProject_image_used demoProject_renders
  show ?thesis by blast
qed

theorem featured_badge_iff_true_counterexample:
  "featured unrenderableProject = Some True \<and>
   ProjectCard unrenderableProject 0 initialState = Inl URIError"
  by (simp add: unrenderableProject_throws unrenderableProject_fields)

text \<open>
  C8. The project \<open>{title: "X", category: "frontend", image: undefined, technologies:
  ["A", "B"]}\<close>, with no github, liveDemo or featured field, renders first with the image
  source \<open>https://via.placeholder.com/800x600/1e1b4b/a855f7?text=X\<close>, the two tags A and
  B in that order, neither badge and neither link.
\<close>

theorem spec_example_first_render:
  "ProjectCard
     \<lparr>title = js ''X'', description = d, category = js ''frontend'',
      technologies = [js ''A'', js ''B''], imageUrl = None, github = None,
      liveDemo = None, featured = None\<rparr> i initialState =
   Inr \<lparr>spinner = Some (js ''Loading preview...''),
        picture =
          \<lparr>src = js ''https://via.placeholder.com/800x600/1e1b4b/a855f7?text=X'',
           alt = js ''Preview of X'',
           className =
             js ''h-full w-full object-cover transition-all duration-500 opacity-0''\<rparr>,
        liveDemoBadge = None, featuredBadge = None,
        categoryBadge = js ''frontend'', titleText = js ''X'', descriptionText = d,
        tags = [js ''A'', js ''B''], codeLink = None, demoLink = None\<rparr>"
  by (simp add: render_defs encode_X js_simps)

theorem spec_example_first_render_witness:
  "map_sum id (\<lambda>v. (src (picture v), tags v, liveDemoBadge v, featuredBadge v,
                    codeLink v, demoLink v))
     (ProjectCard
        \<lparr>title = js ''X'', description = [], category = js ''frontend'',
         technologies = [js ''A'', js ''B''], imageUrl = None, github = None,
         liveDemo = None, featured = None\<rparr> 0 initialState) =
   Inr (js ''https://via.placeholder.com/800x600/1e1b4b/a855f7?text=X'',
        [js ''A'', js ''B''], None, None, None, None)"
  by (simp add: spec_example_first_render [of "[]" 0])

end
